theory Spec2Isabelle
  imports Complex_Main "HOL-Library.Multiset"
begin

section \<open>Python values used by the handler\<close>

text \<open>
  The CPU average delivered by the metrics service is a Python float. A finite float is
  a (dyadic) real number, \<open>Finite 0\<close> being the positive zero. The negative zero and the
  three special values are kept apart, since Python orders and prints them on their own:
  \<^verbatim>\<open>-0.0\<close> compares as zero and prints with its sign.
\<close>

datatype pyfloat = Finite real | NegZero | PosInf | NegInf | NaN

text \<open>
  \<^verbatim>\<open>cpu < CPU_THRESHOLD\<close> with a float on the left and an int on the right: Python
  compares the two exactly; every comparison with NaN is false.
\<close>

fun float_lt_int :: "pyfloat \<Rightarrow> int \<Rightarrow> bool" where
  "float_lt_int (Finite r) t = (r < of_int t)"
| "float_lt_int NegZero t = (0 < t)"
| "float_lt_int PosInf t = False"
| "float_lt_int NegInf t = True"
| "float_lt_int NaN t = False"

text \<open>
  \<^verbatim>\<open>f"{cpu}"\<close> prints a float with Python's own shortest round-trip algorithm, which is
  part of the language runtime and not of this program: the printer of the finite floats
  other than the negative zero is the parameter \<open>repr\<close> of the model.
\<close>

fun float_str :: "(real \<Rightarrow> string) \<Rightarrow> pyfloat \<Rightarrow> string" where
  "float_str repr (Finite r) = repr r"
| "float_str repr NegZero = ''-0.0''"
| "float_str repr PosInf = ''inf''"
| "float_str repr NegInf = ''-inf''"
| "float_str repr NaN = ''nan''"

datatype error =
    TypeError
  | UnknownTimeZoneError string
  | ClientError string

text \<open>
  The variable \<^verbatim>\<open>cpu\<close> holds \<^verbatim>\<open>None\<close> or a float. Ordering \<^verbatim>\<open>None\<close> against an int raises
  \<^verbatim>\<open>TypeError\<close>; formatting \<^verbatim>\<open>None\<close> gives the text \<^verbatim>\<open>None\<close>.
\<close>

fun py_lt :: "pyfloat option \<Rightarrow> int \<Rightarrow> error + bool" where
  "py_lt None t = Inl TypeError"
| "py_lt (Some x) t = Inr (float_lt_int x t)"

fun py_format :: "(real \<Rightarrow> string) \<Rightarrow> pyfloat option \<Rightarrow> string" where
  "py_format repr None = ''None''"
| "py_format repr (Some x) = float_str repr x"

text \<open>
  The variable \<^verbatim>\<open>reason\<close> holds \<^verbatim>\<open>None\<close> or a string. \<^verbatim>\<open>if reason:\<close> tests its truth
  value (\<^verbatim>\<open>None\<close> and the empty string are false), \<^verbatim>\<open>f"{reason}"\<close> prints it.
\<close>

fun truthy :: "string option \<Rightarrow> bool" where
  "truthy None = False"
| "truthy (Some s) = (s \<noteq> [])"

fun str_format :: "string option \<Rightarrow> string" where
  "str_format None = ''None''"
| "str_format (Some s) = s"

section \<open>Module state and the external services\<close>

text \<open>
  The module reads its configuration from the environment once, when it is loaded
  (lines 11 to 15): \<^verbatim>\<open>DRY_RUN\<close> is a boolean and \<^verbatim>\<open>CPU_THRESHOLD\<close> an int from then on.
\<close>

record config =
  TABLE_NAME :: string
  SNS_TOPIC_ARN :: string
  DRY_RUN :: bool
  CPU_THRESHOLD :: int
  TIMEZONE :: string

text \<open>
  What the handler reads of the services' answers: the id of an instance, the instances
  of a reservation, the timestamp and the average of a datapoint (timestamps are instants,
  counted in microseconds), and of \<^verbatim>\<open>now\<close> its hour and its text \<^verbatim>\<open>str(now)\<close>.
\<close>

record ec2_instance =
  InstanceId :: string

record reservation =
  Instances :: "ec2_instance list"

record datapoint =
  Timestamp :: int
  Average :: pyfloat

record datetime =
  dt_hour :: int
  dt_str :: string

record item =
  item_InstanceId :: string
  item_Timestamp :: string
  item_Reason :: "string option"

text \<open>
  Every call of a client is an event of the run, with the arguments the handler passes.
\<close>

datatype call =
    DescribeInstances "(string \<times> string list) list"
  | GetMetricStatistics string
  | StopInstances "string list"
  | PutItem string item
  | Publish string string string

text \<open>
  The world answers each call with a value or with the exception the client raises.
  \<open>clock\<close> stands for \<^verbatim>\<open>pytz.timezone(TIMEZONE)\<close> followed by \<^verbatim>\<open>datetime.datetime.now(tz)\<close>.
\<close>

record world =
  clock :: "string \<Rightarrow> error + datetime"
  describe_instances :: "(string \<times> string list) list \<Rightarrow> error + reservation list"
  get_metric_statistics :: "string \<Rightarrow> error + datapoint list"
  stop_instances :: "string list \<Rightarrow> error option"
  put_item :: "string \<Rightarrow> item \<Rightarrow> error option"
  publish :: "string \<Rightarrow> string \<Rightarrow> string \<Rightarrow> error option"

text \<open>
  A computation yields the calls it made, in order, and its value or the exception that
  ended it. No exception is caught anywhere in the module, so an exception ends
  everything that follows.
\<close>

type_synonym 'a io = "call list \<times> (error + 'a)"

definition return_io :: "'a \<Rightarrow> 'a io" where
  "return_io x = ([], Inr x)"

definition bind_io :: "'a io \<Rightarrow> ('a \<Rightarrow> 'b io) \<Rightarrow> 'b io" where
  "bind_io m f =
     (case m of
        (t, Inl e) \<Rightarrow> (t, Inl e)
      | (t, Inr x) \<Rightarrow> (case f x of (t', r) \<Rightarrow> (t @ t', r)))"

definition lift_io :: "error + 'a \<Rightarrow> 'a io" where
  "lift_io r = ([], r)"

definition call_value :: "call \<Rightarrow> error + 'a \<Rightarrow> 'a io" where
  "call_value c r = ([c], r)"

definition call_unit :: "call \<Rightarrow> error option \<Rightarrow> unit io" where
  "call_unit c r = ([c], case r of None \<Rightarrow> Inr () | Some e \<Rightarrow> Inl e)"

section \<open>\<^verbatim>\<open>get_cpu_utilization\<close> (lines 19 to 34)\<close>

text \<open>
  \<^verbatim>\<open>sorted\<close> is a stable sort by the key, as \<^const>\<open>sort_key\<close> is; \<^verbatim>\<open>[-1]\<close> reads the
  last element of a list that the test before it has found non-empty.
\<close>

definition get_cpu_utilization :: "world \<Rightarrow> string \<Rightarrow> pyfloat option io" where
  "get_cpu_utilization w instance_id =
     bind_io (call_value (GetMetricStatistics instance_id) (get_metric_statistics w instance_id))
       (\<lambda>Datapoints.
          if Datapoints = [] then return_io None
          else
            (let latest = last (sort_key Timestamp Datapoints)
             in return_io (Some (Average latest))))"

section \<open>The stop decision (lines 53 to 57 of \<^verbatim>\<open>lambda_handler\<close>)\<close>

text \<open>
  \<^verbatim>\<open>
  reason = None
  if hour >= 20 or hour < 8:
      reason = "After hours"
  elif cpu is not None and cpu < CPU_THRESHOLD:
      reason = f"Low CPU: {cpu}%"
  \<close>
  The result is the final value of \<^verbatim>\<open>reason\<close>, or the exception raised on the way. The
  \<^verbatim>\<open>and\<close> evaluates its right operand only when the left one is true.
\<close>

definition evaluate :: "(real \<Rightarrow> string) \<Rightarrow> int \<Rightarrow> pyfloat option \<Rightarrow> int \<Rightarrow> error + string option" where
  "evaluate repr hour cpu threshold =
     (if hour \<ge> 20 \<or> hour < 8 then Inr (Some ''After hours'')
      else
        (case (if cpu \<noteq> None then py_lt cpu threshold else Inr False) of
           Inl e \<Rightarrow> Inl e
         | Inr b \<Rightarrow>
             if b then Inr (Some (''Low CPU: '' @ py_format repr cpu @ ''%''))
             else Inr None))"

section \<open>\<^verbatim>\<open>lambda_handler\<close> (lines 36 to 75)\<close>

definition instance_filters :: "(string \<times> string list) list" where
  "instance_filters =
     [(''tag:AutoStop'', [''Yes'']),
      (''tag:Environment'', [''Dev'', ''Test'']),
      (''tag:Critical'', [''No'']),
      (''instance-state-name'', [''running''])]"

text \<open>
  Lines 60 to 73, the branch under \<^verbatim>\<open>if reason:\<close>: the stop call unless \<^verbatim>\<open>DRY_RUN\<close>, then
  the audit record, then the notification.
\<close>

definition stop_record_notify ::
  "world \<Rightarrow> config \<Rightarrow> datetime \<Rightarrow> string \<Rightarrow> string option \<Rightarrow> unit io" where
  "stop_record_notify w cfg now instance_id reason =
     bind_io
       (if \<not> DRY_RUN cfg
        then call_unit (StopInstances [instance_id]) (stop_instances w [instance_id])
        else return_io ()) (\<lambda>_.
     bind_io
       (let Item = \<lparr>item_InstanceId = instance_id,
                    item_Timestamp = dt_str now,
                    item_Reason = reason\<rparr>
        in call_unit (PutItem (TABLE_NAME cfg) Item) (put_item w (TABLE_NAME cfg) Item)) (\<lambda>_.
       (let Subject = ''EC2 Optimization Alert'';
            Message = ''Stopped '' @ instance_id @ '' due to '' @ str_format reason
        in call_unit (Publish (SNS_TOPIC_ARN cfg) Subject Message)
             (publish w (SNS_TOPIC_ARN cfg) Subject Message))))"

text \<open>The body of the inner loop, lines 50 to 73, for one instance.\<close>

definition process_instance ::
  "(real \<Rightarrow> string) \<Rightarrow> world \<Rightarrow> config \<Rightarrow> datetime \<Rightarrow> ec2_instance \<Rightarrow> unit io" where
  "process_instance repr w cfg now inst =
     (let instance_id = InstanceId inst in
      bind_io (get_cpu_utilization w instance_id) (\<lambda>cpu.
      bind_io (lift_io (evaluate repr (dt_hour now) cpu (CPU_THRESHOLD cfg))) (\<lambda>reason.
        if truthy reason then stop_record_notify w cfg now instance_id reason
        else return_io ())))"

fun for_instances ::
  "(real \<Rightarrow> string) \<Rightarrow> world \<Rightarrow> config \<Rightarrow> datetime \<Rightarrow> ec2_instance list \<Rightarrow> unit io" where
  "for_instances repr w cfg now [] = return_io ()"
| "for_instances repr w cfg now (inst # rest) =
     bind_io (process_instance repr w cfg now inst) (\<lambda>_. for_instances repr w cfg now rest)"

fun for_reservations ::
  "(real \<Rightarrow> string) \<Rightarrow> world \<Rightarrow> config \<Rightarrow> datetime \<Rightarrow> reservation list \<Rightarrow> unit io" where
  "for_reservations repr w cfg now [] = return_io ()"
| "for_reservations repr w cfg now (res # rest) =
     bind_io (for_instances repr w cfg now (Instances res))
       (\<lambda>_. for_reservations repr w cfg now rest)"

record response =
  statusCode :: int
  body :: string

definition lambda_handler ::
  "(real \<Rightarrow> string) \<Rightarrow> world \<Rightarrow> config \<Rightarrow> 'e \<Rightarrow> 'c \<Rightarrow> response io" where
  "lambda_handler repr w cfg event context =
     bind_io (lift_io (clock w (TIMEZONE cfg))) (\<lambda>now.
     bind_io (call_value (DescribeInstances instance_filters)
                (describe_instances w instance_filters)) (\<lambda>Reservations.
     bind_io (for_reservations repr w cfg now Reservations) (\<lambda>_.
     return_io \<lparr>statusCode = 200, body = ''Optimization complete''\<rparr>)))"

section \<open>Observations on a run\<close>



fun is_publish :: "call \<Rightarrow> bool" where
  "is_publish (Publish a s m) = True"
| "is_publish c = False"

fun recorded :: "call \<Rightarrow> (string \<times> string option) list" where
  "recorded (PutItem t it) = [(item_InstanceId it, item_Reason it)]"
| "recorded c = []"

definition audit_log :: "call list \<Rightarrow> (string \<times> string option) list" where
  "audit_log tr = concat (map recorded tr)"

section \<open>A small account\<close>

text \<open>
  Three instances in two reservations, at two in the afternoon: the first idles at
  \<open>double_3_2\<close> percent, the float nearest to 3.2, which Python prints as \<open>3.2\<close> (its
  datapoints arrive out of order); the second has no datapoints; the third is busy. No
  call fails.
\<close>

definition double_3_2 :: real where
  "double_3_2 = 3602879701896397 / 2 ^ 50"

definition example_repr :: "real \<Rightarrow> string" where
  "example_repr r = (if r = double_3_2 then ''3.2'' else ''0.0'')"

definition example_datapoints :: "string \<Rightarrow> datapoint list" where
  "example_datapoints i =
     (if i = ''i-1'' then
        [\<lparr>Timestamp = 600, Average = Finite double_3_2\<rparr>,
         \<lparr>Timestamp = 300, Average = Finite 75\<rparr>]
      else if i = ''i-3'' then [\<lparr>Timestamp = 600, Average = Finite 75\<rparr>]
      else [])"

definition example_world :: world where
  "example_world =
     \<lparr>clock = (\<lambda>tz. Inr \<lparr>dt_hour = 14, dt_str = ''2024-05-06 14:00:00+00:00''\<rparr>),
      describe_instances =
        (\<lambda>f. Inr [\<lparr>Instances = [\<lparr>InstanceId = ''i-1''\<rparr>, \<lparr>InstanceId = ''i-2''\<rparr>]\<rparr>,
                  \<lparr>Instances = [\<lparr>InstanceId = ''i-3''\<rparr>]\<rparr>]),
      get_metric_statistics = (\<lambda>i. Inr (example_datapoints i)),
      stop_instances = (\<lambda>ids. None),
      put_item = (\<lambda>t it. None),
      publish = (\<lambda>a s m. None)\<rparr>"

definition example_config :: config where
  "example_config =
     \<lparr>TABLE_NAME = ''audit'', SNS_TOPIC_ARN = ''arn:alerts'', DRY_RUN = False,
      CPU_THRESHOLD = 10, TIMEZONE = ''UTC''\<rparr>"






section \<open>Auxiliary facts\<close>

subsection \<open>Sequencing\<close>

lemma bind_io_Inl: "bind_io (t, Inl e) f = (t, Inl e)"
  by (simp add: bind_io_def)

lemma bind_io_Inr: "bind_io (t, Inr x) f = (t @ fst (f x), snd (f x))"
  by (simp add: bind_io_def split: prod.splits)

lemma bind_io_return: "bind_io (return_io x) f = f x"
  by (simp add: bind_io_def return_io_def split: prod.splits)

lemma bind_io_assoc: "bind_io (bind_io m f) g = bind_io m (\<lambda>x. bind_io (f x) g)"
  by (auto simp: bind_io_def split: prod.splits sum.splits)

subsection \<open>The decision and the metrics lookup\<close>

lemma evaluate_cases:
  "evaluate repr h cpu thr = Inr None \<or> (\<exists>r. r \<noteq> [] \<and> evaluate repr h cpu thr = Inr (Some r))"
  by (cases cpu) (simp_all add: evaluate_def)

lemma sorted_map_last_max:
  "sorted (map f xs) \<Longrightarrow> x \<in> set xs \<Longrightarrow> f x \<le> f (last xs)"
  by (induction xs) auto

lemma last_sort_key_max:
  assumes "xs \<noteq> []"
  shows "last (sort_key f xs) \<in> set xs" and "x \<in> set xs \<Longrightarrow> f x \<le> f (last (sort_key f xs))"
proof -
  have ne: "sort_key f xs \<noteq> []" using assms by (metis length_sort length_0_conv)
  then have "last (sort_key f xs) \<in> set (sort_key f xs)" by (rule last_in_set)
  then show "last (sort_key f xs) \<in> set xs" by simp
  show "f x \<le> f (last (sort_key f xs))" if "x \<in> set xs"
    using sorted_map_last_max [of f "sort_key f xs" x] that by simp
qed

lemma get_cpu_utilization_Inr:
  "get_metric_statistics w i = Inr dps \<Longrightarrow>
   get_cpu_utilization w i =
     ([GetMetricStatistics i],
      Inr (if dps = [] then None else Some (Average (last (sort_key Timestamp dps)))))"
  by (simp add: get_cpu_utilization_def call_value_def bind_io_Inr return_io_def)

lemma get_cpu_utilization_Inl:
  "get_metric_statistics w i = Inl e \<Longrightarrow>
   get_cpu_utilization w i = ([GetMetricStatistics i], Inl e)"
  by (simp add: get_cpu_utilization_def call_value_def bind_io_Inl)

lemma fst_get_cpu_utilization: "fst (get_cpu_utilization w i) = [GetMetricStatistics i]"
  by (cases "get_metric_statistics w i")
    (simp_all add: get_cpu_utilization_Inl get_cpu_utilization_Inr)

lemma snd_get_cpu_utilization_cases:
  "(\<exists>e. get_cpu_utilization w i = ([GetMetricStatistics i], Inl e))
   \<or> (\<exists>cpu. get_cpu_utilization w i = ([GetMetricStatistics i], Inr cpu))"
  by (cases "get_metric_statistics w i")
    (simp_all add: get_cpu_utilization_Inl get_cpu_utilization_Inr)

subsection \<open>One instance\<close>

lemma stop_record_notify_trace:
  assumes "DRY_RUN cfg \<or> stop_instances w [i] = None"
    and "put_item w (TABLE_NAME cfg)
           \<lparr>item_InstanceId = i, item_Timestamp = dt_str now, item_Reason = Some r\<rparr> = None"
  shows "stop_record_notify w cfg now i (Some r) =
           ((if DRY_RUN cfg then [] else [StopInstances [i]]) @
            [PutItem (TABLE_NAME cfg)
               \<lparr>item_InstanceId = i, item_Timestamp = dt_str now, item_Reason = Some r\<rparr>,
             Publish (SNS_TOPIC_ARN cfg) ''EC2 Optimization Alert''
               (''Stopped '' @ i @ '' due to '' @ r)],
            (case publish w (SNS_TOPIC_ARN cfg) ''EC2 Optimization Alert''
               (''Stopped '' @ i @ '' due to '' @ r) of None \<Rightarrow> Inr () | Some e \<Rightarrow> Inl e))"
  using assms
  by (auto simp: stop_record_notify_def call_unit_def bind_io_Inr return_io_def Let_def)

lemma process_instance_unfold:
  assumes "snd (get_cpu_utilization w (InstanceId inst)) = Inr cpu"
    and "evaluate repr (dt_hour now) cpu (CPU_THRESHOLD cfg) = Inr reason"
  shows "process_instance repr w cfg now inst =
           (if reason = None then ([GetMetricStatistics (InstanceId inst)], Inr ())
            else (GetMetricStatistics (InstanceId inst) #
                    fst (stop_record_notify w cfg now (InstanceId inst) reason),
                  snd (stop_record_notify w cfg now (InstanceId inst) reason)))"
proof -
  have g: "get_cpu_utilization w (InstanceId inst) = ([GetMetricStatistics (InstanceId inst)], Inr cpu)"
    using assms(1) fst_get_cpu_utilization [of w "InstanceId inst"] by (simp add: prod_eq_iff)
  have t: "truthy reason = (reason \<noteq> None)"
    using evaluate_cases [of repr "dt_hour now" cpu "CPU_THRESHOLD cfg"] assms(2) by auto
  show ?thesis
    by (simp add: process_instance_def Let_def g assms(2) t bind_io_Inr lift_io_def return_io_def)
qed

lemma publish_in_stop_record_notify:
  assumes "Publish a s m \<in> set (fst (stop_record_notify w cfg now i (Some r)))"
  shows "a = SNS_TOPIC_ARN cfg \<and> s = ''EC2 Optimization Alert''
         \<and> m = ''Stopped '' @ i @ '' due to '' @ r"
  using assms
  by (auto simp: stop_record_notify_def call_unit_def bind_io_def return_io_def Let_def
      split: option.splits if_splits)

lemma publish_in_process_instance:
  assumes "Publish a s m \<in> set (fst (process_instance repr w cfg now inst))"
  shows "\<exists>cpu reason. snd (get_cpu_utilization w (InstanceId inst)) = Inr cpu
           \<and> evaluate repr (dt_hour now) cpu (CPU_THRESHOLD cfg) = Inr (Some reason)
           \<and> a = SNS_TOPIC_ARN cfg \<and> s = ''EC2 Optimization Alert''
           \<and> m = ''Stopped '' @ InstanceId inst @ '' due to '' @ reason"
proof -
  consider e where "get_cpu_utilization w (InstanceId inst) = ([GetMetricStatistics (InstanceId inst)], Inl e)"
    | cpu where "get_cpu_utilization w (InstanceId inst) = ([GetMetricStatistics (InstanceId inst)], Inr cpu)"
    using snd_get_cpu_utilization_cases by blast
  then show ?thesis
  proof cases
    case 1
    with assms show ?thesis by (simp add: process_instance_def bind_io_Inl)
  next
    case 2
    then have g: "snd (get_cpu_utilization w (InstanceId inst)) = Inr cpu" by simp
    obtain reason where ev: "evaluate repr (dt_hour now) cpu (CPU_THRESHOLD cfg) = Inr reason"
      using evaluate_cases [of repr "dt_hour now" cpu "CPU_THRESHOLD cfg"] by blast
    show ?thesis
    proof (cases reason)
      case None
      with assms process_instance_unfold [OF g ev] show ?thesis by simp
    next
      case (Some r)
      with assms process_instance_unfold [OF g ev]
      have "Publish a s m \<in> set (fst (stop_record_notify w cfg now (InstanceId inst) (Some r)))"
        by simp
      from publish_in_stop_record_notify [OF this] g ev Some show ?thesis by blast
    qed
  qed
qed

subsection \<open>Runs without the stop calls\<close>
















subsection \<open>Runs in which no call fails\<close>

lemma audit_log_append: "audit_log (xs @ ys) = audit_log xs @ audit_log ys"
  by (simp add: audit_log_def)

lemma process_instance_ok:
  assumes g: "snd (get_cpu_utilization w (InstanceId inst)) = Inr cpu"
    and s: "\<forall>ids. stop_instances w ids = None"
    and p: "\<forall>t it. put_item w t it = None"
    and n: "\<forall>a s m. publish w a s m = None"
  shows "snd (process_instance repr w cfg now inst) = Inr ()"
    and "audit_log (fst (process_instance repr w cfg now inst)) =
           (case evaluate repr (dt_hour now) cpu (CPU_THRESHOLD cfg) of
              Inr (Some r) \<Rightarrow> [(InstanceId inst, Some r)]
            | _ \<Rightarrow> [])"
proof -
  obtain reason where ev: "evaluate repr (dt_hour now) cpu (CPU_THRESHOLD cfg) = Inr reason"
    using evaluate_cases [of repr "dt_hour now" cpu "CPU_THRESHOLD cfg"] by blast
  have srn: "stop_record_notify w cfg now (InstanceId inst) (Some r) =
           ((if DRY_RUN cfg then [] else [StopInstances [InstanceId inst]]) @
            [PutItem (TABLE_NAME cfg)
               \<lparr>item_InstanceId = InstanceId inst, item_Timestamp = dt_str now, item_Reason = Some r\<rparr>,
             Publish (SNS_TOPIC_ARN cfg) ''EC2 Optimization Alert''
               (''Stopped '' @ InstanceId inst @ '' due to '' @ r)], Inr ())" for r
    using stop_record_notify_trace [of cfg w "InstanceId inst" now r] s p n by simp
  show "snd (process_instance repr w cfg now inst) = Inr ()"
    using process_instance_unfold [OF g ev] srn by (cases reason) simp_all
  show "audit_log (fst (process_instance repr w cfg now inst)) =
           (case evaluate repr (dt_hour now) cpu (CPU_THRESHOLD cfg) of
              Inr (Some r) \<Rightarrow> [(InstanceId inst, Some r)]
            | _ \<Rightarrow> [])"
    using process_instance_unfold [OF g ev] srn ev by (cases reason) (simp_all add: audit_log_def)
qed

lemma for_instances_ok:
  assumes g: "\<forall>i. snd (get_cpu_utilization w i) = Inr (cpu i)"
    and s: "\<forall>ids. stop_instances w ids = None"
    and p: "\<forall>t it. put_item w t it = None"
    and n: "\<forall>a s m. publish w a s m = None"
  shows "snd (for_instances repr w cfg now insts) = Inr ()"
    and "audit_log (fst (for_instances repr w cfg now insts)) =
           concat (map (\<lambda>inst.
             case evaluate repr (dt_hour now) (cpu (InstanceId inst)) (CPU_THRESHOLD cfg) of
               Inr (Some r) \<Rightarrow> [(InstanceId inst, Some r)]
             | _ \<Rightarrow> []) insts)"
proof (induction insts)
  case Nil
  { case 1 show ?case by (simp add: return_io_def) }
  { case 2 show ?case by (simp add: return_io_def audit_log_def) }
next
  case (Cons inst insts)
  have g': "snd (get_cpu_utilization w (InstanceId inst)) = Inr (cpu (InstanceId inst))"
    using g by simp
  have pi: "process_instance repr w cfg now inst =
              (fst (process_instance repr w cfg now inst), Inr ())"
    using process_instance_ok(1) [OF g' s p n, of repr cfg now] by (simp add: prod_eq_iff)
  have step: "for_instances repr w cfg now (inst # insts) =
      (fst (process_instance repr w cfg now inst) @ fst (for_instances repr w cfg now insts),
       snd (for_instances repr w cfg now insts))"
    by (subst for_instances.simps, subst pi) (simp add: bind_io_Inr)
  { case 1 show ?case using step Cons.IH(1) by simp }
  { case 2 show ?case
      using step Cons.IH(2) process_instance_ok(2) [OF g' s p n, of repr cfg now]
      by (simp add: audit_log_append) }
qed

lemma for_instances_append:
  "for_instances repr w cfg now (xs @ ys) =
     bind_io (for_instances repr w cfg now xs) (\<lambda>_. for_instances repr w cfg now ys)"
  by (induction xs) (simp_all add: bind_io_return bind_io_assoc)

lemma for_reservations_flat:
  "for_reservations repr w cfg now rs = for_instances repr w cfg now (concat (map Instances rs))"
  by (induction rs) (simp_all add: for_instances_append)



lemma lambda_handler_unfold:
  assumes "clock w (TIMEZONE cfg) = Inr now"
    and "describe_instances w instance_filters = Inr rs"
  shows "lambda_handler repr w cfg ev ctx =
           (DescribeInstances instance_filters #
              fst (for_instances repr w cfg now (concat (map Instances rs))),
            case snd (for_instances repr w cfg now (concat (map Instances rs))) of
              Inl e \<Rightarrow> Inl e
            | Inr u \<Rightarrow> Inr \<lparr>statusCode = 200, body = ''Optimization complete''\<rparr>)"
  using assms
  by (cases "for_instances repr w cfg now (concat (map Instances rs))";
      cases "snd (for_instances repr w cfg now (concat (map Instances rs)))")
    (simp_all add: lambda_handler_def lift_io_def call_value_def bind_io_Inr bind_io_Inl
      for_reservations_flat return_io_def)


subsection \<open>Audit records of any run\<close>






subsection \<open>The small account, evaluated\<close>

lemma ex_cpu:
  "get_cpu_utilization example_world ''i-1'' =
     ([GetMetricStatistics ''i-1''], Inr (Some (Finite double_3_2)))"
  "get_cpu_utilization example_world ''i-2'' = ([GetMetricStatistics ''i-2''], Inr None)"
  "get_cpu_utilization example_world ''i-3'' = ([GetMetricStatistics ''i-3''], Inr (Some (Finite 75)))"
  by (simp_all add: get_cpu_utilization_Inr example_world_def example_datapoints_def)

lemma ex_eval:
  "evaluate example_repr 14 (Some (Finite double_3_2)) 10 = Inr (Some ''Low CPU: 3.2%'')"
  "evaluate example_repr 14 None 10 = Inr None"
  "evaluate example_repr 14 (Some (Finite 75)) 10 = Inr None"
  "evaluate example_repr 22 cpu 10 = Inr (Some ''After hours'')"
  by (simp_all add: evaluate_def example_repr_def double_3_2_def)






section \<open>The decision policy\<close>

text \<open>
  C1. In every hour from 20 to 23 and from 0 to 7 the decision is \<open>After hours\<close>, for
  every CPU sample, present or absent, and for every threshold: the time rule is tested
  first and wins over the CPU rule.
\<close>

theorem after_hours_takes_precedence:
  assumes "(20 \<le> hour \<and> hour \<le> 23) \<or> (0 \<le> hour \<and> hour \<le> 7)"
  shows "evaluate repr hour cpu threshold = Inr (Some ''After hours'')"
  using assms by (auto simp: evaluate_def)

theorem after_hours_takes_precedence_witness:
  "evaluate example_repr 20 (Some (Finite 0)) 50 = Inr (Some ''After hours'')
   \<and> float_lt_int (Finite 0) 50
   \<and> evaluate example_repr 7 (Some (Finite 99)) 10 = Inr (Some ''After hours'')
   \<and> evaluate example_repr 0 None 10 = Inr (Some ''After hours'')"
  using after_hours_takes_precedence [of 20 example_repr "Some (Finite 0)" 50]
    after_hours_takes_precedence [of 7 example_repr "Some (Finite 99)" 10]
    after_hours_takes_precedence [of 0 example_repr None 10]
  by simp

text \<open>
  C2. In every hour from 8 to 19, with a CPU sample \<open>c\<close> present and the threshold \<open>t\<close>,
  the decision is \<open>Low CPU: c%\<close>, with \<open>c\<close> printed as retrieved (the sign of a zero
  included), exactly when \<open>c < t\<close>, and
  no stop otherwise; a sample equal to the threshold does not stop (hour 8, sample 10,
  threshold 10), and at hour 14 the float nearest to 3.2, which Python prints as \<open>3.2\<close>,
  under threshold 10 gives \<open>Low CPU: 3.2%\<close>.
\<close>

theorem low_cpu_iff_below_threshold:
  "(8 \<le> hour \<and> hour \<le> 19 \<longrightarrow>
      evaluate repr hour (Some c) t =
        Inr (if float_lt_int c t then Some (''Low CPU: '' @ float_str repr c @ ''%'') else None))
   \<and> evaluate repr 8 (Some (Finite 10)) 10 = Inr None
   \<and> (repr (3602879701896397 / 2 ^ 50) = ''3.2'' \<longrightarrow>
        evaluate repr 14 (Some (Finite (3602879701896397 / 2 ^ 50))) 10 =
          Inr (Some ''Low CPU: 3.2%''))"
  by (simp add: evaluate_def)

theorem low_cpu_iff_below_threshold_witness:
  "evaluate example_repr 14 (Some (Finite (3602879701896397 / 2 ^ 50))) 10 =
     Inr (Some ''Low CPU: 3.2%'')
   \<and> evaluate example_repr 19 (Some (Finite 10)) 10 = Inr None
   \<and> evaluate example_repr 8 (Some (Finite 10)) 10 = Inr None
   \<and> evaluate example_repr 14 (Some (Finite 0)) 10 = Inr (Some ''Low CPU: 0.0%'')
   \<and> evaluate example_repr 14 (Some NegZero) 10 = Inr (Some ''Low CPU: -0.0%'')
   \<and> evaluate example_repr 14 (Some NegZero) 0 = Inr None"
  using low_cpu_iff_below_threshold [of 14 example_repr "Finite (3602879701896397 / 2 ^ 50)" 10]
    low_cpu_iff_below_threshold [of 19 example_repr "Finite 10" 10]
    low_cpu_iff_below_threshold [of 14 example_repr "Finite 0" 10]
    low_cpu_iff_below_threshold [of 14 example_repr NegZero 10]
    low_cpu_iff_below_threshold [of 14 example_repr NegZero 0]
  by (simp add: example_repr_def double_3_2_def)

text \<open>
  C3. In every hour from 8 to 19, with no CPU sample, the decision is no stop: missing
  data is never a reason to stop.
\<close>

theorem no_sample_in_hours_no_stop:
  assumes "8 \<le> hour" and "hour \<le> 19"
  shows "evaluate repr hour None threshold = Inr None"
  using assms by (simp add: evaluate_def)

theorem no_sample_in_hours_no_stop_witness:
  "evaluate (\<lambda>r. ''0.0'') 8 None 10 = Inr None \<and> evaluate (\<lambda>r. ''0.0'') 19 None 10 = Inr None"
  using no_sample_in_hours_no_stop [of 8 "\<lambda>r. ''0.0''" 10]
    no_sample_in_hours_no_stop [of 19 "\<lambda>r. ''0.0''" 10]
  by simp

text \<open>
  C4. The decision is a total function of an integer hour, an optional float and a
  threshold: on every input it yields a value, \<open>None\<close> or a reason, and never an
  exception (the comparison of \<open>None\<close> with the threshold, which would raise, is never
  reached); and the step that computes it adds no call to the run.
\<close>

theorem evaluate_total:
  "\<exists>reason. evaluate repr hour cpu threshold = Inr reason
     \<and> lift_io (evaluate repr hour cpu threshold) = ([], Inr reason)"
  by (cases cpu) (simp_all add: evaluate_def lift_io_def)

text \<open>
  C5. The branch that stops, records and notifies is guarded by the truth value of
  \<open>reason\<close>. On every decision the code computes, that truth value holds exactly when
  the reason is not \<open>None\<close>; so the loop body, once the metrics lookup has answered, goes
  through that branch exactly when the reason is not \<open>None\<close>, and makes no further call
  otherwise.
\<close>

theorem stop_branch_iff_reason_present:
  "(case evaluate repr hour cpu threshold of
      Inl e \<Rightarrow> False
    | Inr reason \<Rightarrow> truthy reason = (reason \<noteq> None))
   \<and> (snd (get_cpu_utilization w (InstanceId inst)) = Inr sample
       \<and> evaluate repr (dt_hour now) sample (CPU_THRESHOLD cfg) = Inr decision
       \<longrightarrow> process_instance repr w cfg now inst =
             (if decision = None then ([GetMetricStatistics (InstanceId inst)], Inr ())
              else (GetMetricStatistics (InstanceId inst) #
                      fst (stop_record_notify w cfg now (InstanceId inst) decision),
                    snd (stop_record_notify w cfg now (InstanceId inst) decision))))"
proof (intro conjI impI)
  show "case evaluate repr hour cpu threshold of
          Inl e \<Rightarrow> False
        | Inr reason \<Rightarrow> truthy reason = (reason \<noteq> None)"
    by (cases cpu) (simp_all add: evaluate_def)
next
  assume "snd (get_cpu_utilization w (InstanceId inst)) = Inr sample
       \<and> evaluate repr (dt_hour now) sample (CPU_THRESHOLD cfg) = Inr decision"
  then show "process_instance repr w cfg now inst =
             (if decision = None then ([GetMetricStatistics (InstanceId inst)], Inr ())
              else (GetMetricStatistics (InstanceId inst) #
                      fst (stop_record_notify w cfg now (InstanceId inst) decision),
                    snd (stop_record_notify w cfg now (InstanceId inst) decision)))"
    by (simp add: process_instance_unfold)
qed

theorem stop_branch_iff_reason_present_witness:
  "truthy (Some ''Low CPU: 3.2%'')
   \<and> process_instance example_repr example_world example_config
       \<lparr>dt_hour = 14, dt_str = ''2024-05-06 14:00:00+00:00''\<rparr> \<lparr>InstanceId = ''i-2''\<rparr> =
     ([GetMetricStatistics ''i-2''], Inr ())
   \<and> fst (process_instance example_repr example_world example_config
       \<lparr>dt_hour = 14, dt_str = ''2024-05-06 14:00:00+00:00''\<rparr> \<lparr>InstanceId = ''i-1''\<rparr>) =
     GetMetricStatistics ''i-1'' #
     fst (stop_record_notify example_world example_config
       \<lparr>dt_hour = 14, dt_str = ''2024-05-06 14:00:00+00:00''\<rparr> ''i-1'' (Some ''Low CPU: 3.2%''))"
  using stop_branch_iff_reason_present [of example_repr 14 "Some (Finite double_3_2)" 10
      example_world "\<lparr>InstanceId = ''i-2''\<rparr>" None
      "\<lparr>dt_hour = 14, dt_str = ''2024-05-06 14:00:00+00:00''\<rparr>" example_config None]
    stop_branch_iff_reason_present [of example_repr 14 "Some (Finite double_3_2)" 10
      example_world "\<lparr>InstanceId = ''i-1''\<rparr>" "Some (Finite double_3_2)"
      "\<lparr>dt_hour = 14, dt_str = ''2024-05-06 14:00:00+00:00''\<rparr>" example_config
      "Some ''Low CPU: 3.2%''"]
  by (simp add: ex_cpu ex_eval example_config_def)

section \<open>The effects of a run\<close>




text \<open>
  C7. Every notification the loop body publishes for an instance carries the message
  \<open>Stopped {instance_id} due to {reason}\<close>, built from the id of that instance and the
  reason decided for it; and when the decision is a reason and the calls before it do not
  raise, exactly that one notification is published.
\<close>

theorem notification_message:
  "(\<forall>a s m. Publish a s m \<in> set (fst (process_instance repr w cfg now inst)) \<longrightarrow>
      (\<exists>cpu reason. snd (get_cpu_utilization w (InstanceId inst)) = Inr cpu
         \<and> evaluate repr (dt_hour now) cpu (CPU_THRESHOLD cfg) = Inr (Some reason)
         \<and> m = ''Stopped '' @ InstanceId inst @ '' due to '' @ reason))
   \<and> (snd (get_cpu_utilization w (InstanceId inst)) = Inr cpu
       \<and> evaluate repr (dt_hour now) cpu (CPU_THRESHOLD cfg) = Inr (Some reason)
       \<and> (DRY_RUN cfg \<or> stop_instances w [InstanceId inst] = None)
       \<and> put_item w (TABLE_NAME cfg)
            \<lparr>item_InstanceId = InstanceId inst, item_Timestamp = dt_str now,
               item_Reason = Some reason\<rparr> = None
       \<longrightarrow> filter is_publish (fst (process_instance repr w cfg now inst)) =
             [Publish (SNS_TOPIC_ARN cfg) ''EC2 Optimization Alert''
                (''Stopped '' @ InstanceId inst @ '' due to '' @ reason)])"
proof (intro conjI allI impI)
  fix a s m
  assume "Publish a s m \<in> set (fst (process_instance repr w cfg now inst))"
  from publish_in_process_instance [OF this]
  show "\<exists>cpu reason. snd (get_cpu_utilization w (InstanceId inst)) = Inr cpu
         \<and> evaluate repr (dt_hour now) cpu (CPU_THRESHOLD cfg) = Inr (Some reason)
         \<and> m = ''Stopped '' @ InstanceId inst @ '' due to '' @ reason"
    by blast
next
  assume h: "snd (get_cpu_utilization w (InstanceId inst)) = Inr cpu
       \<and> evaluate repr (dt_hour now) cpu (CPU_THRESHOLD cfg) = Inr (Some reason)
       \<and> (DRY_RUN cfg \<or> stop_instances w [InstanceId inst] = None)
       \<and> put_item w (TABLE_NAME cfg)
            \<lparr>item_InstanceId = InstanceId inst, item_Timestamp = dt_str now,
               item_Reason = Some reason\<rparr> = None"
  then have "fst (stop_record_notify w cfg now (InstanceId inst) (Some reason)) =
      (if DRY_RUN cfg then [] else [StopInstances [InstanceId inst]]) @
      [PutItem (TABLE_NAME cfg)
         \<lparr>item_InstanceId = InstanceId inst, item_Timestamp = dt_str now,
            item_Reason = Some reason\<rparr>,
       Publish (SNS_TOPIC_ARN cfg) ''EC2 Optimization Alert''
         (''Stopped '' @ InstanceId inst @ '' due to '' @ reason)]"
    by (simp add: stop_record_notify_trace)
  with h process_instance_unfold [of w inst cpu repr now cfg "Some reason"]
  show "filter is_publish (fst (process_instance repr w cfg now inst)) =
             [Publish (SNS_TOPIC_ARN cfg) ''EC2 Optimization Alert''
                (''Stopped '' @ InstanceId inst @ '' due to '' @ reason)]"
    by simp
qed


theorem notification_message_witness:
  "filter is_publish
     (fst (process_instance example_repr example_world example_config
        \<lparr>dt_hour = 14, dt_str = ''2024-05-06 14:00:00+00:00''\<rparr> \<lparr>InstanceId = ''i-1''\<rparr>)) =
   [Publish ''arn:alerts'' ''EC2 Optimization Alert'' ''Stopped i-1 due to Low CPU: 3.2%'']"
  using notification_message [of example_repr example_world example_config
      "\<lparr>dt_hour = 14, dt_str = ''2024-05-06 14:00:00+00:00''\<rparr>" "\<lparr>InstanceId = ''i-1''\<rparr>"
      "Some (Finite double_3_2)" "''Low CPU: 3.2%''"]
  by (simp add: ex_cpu ex_eval example_config_def) (simp add: example_world_def)

text \<open>
  C8. The metrics lookup returns \<open>None\<close> when the service delivers no datapoints;
  otherwise it returns the average of a delivered datapoint whose timestamp is greatest:
  the last element after sorting by timestamp.
\<close>

theorem latest_average_is_returned:
  assumes "get_metric_statistics w i = Inr dps"
  shows "(dps = [] \<longrightarrow> snd (get_cpu_utilization w i) = Inr None)
     \<and> (dps \<noteq> [] \<longrightarrow>
          (\<exists>d \<in> set dps. snd (get_cpu_utilization w i) = Inr (Some (Average d))
             \<and> (\<forall>e \<in> set dps. Timestamp e \<le> Timestamp d)))"
proof (cases "dps = []")
  case True
  with assms show ?thesis by (simp add: get_cpu_utilization_Inr)
next
  case False
  let ?d = "last (sort_key Timestamp dps)"
  have "?d \<in> set dps" using False by (rule last_sort_key_max(1))
  moreover have "snd (get_cpu_utilization w i) = Inr (Some (Average ?d))"
    using assms False by (simp add: get_cpu_utilization_Inr)
  moreover have "\<forall>e \<in> set dps. Timestamp e \<le> Timestamp ?d"
    using False by (simp add: last_sort_key_max(2))
  ultimately show ?thesis using False by blast
qed


theorem latest_average_is_returned_witness:
  "snd (get_cpu_utilization example_world ''i-1'') = Inr (Some (Finite double_3_2))
   \<and> snd (get_cpu_utilization example_world ''i-2'') = Inr None"
  using latest_average_is_returned [of example_world "''i-1''" "example_datapoints ''i-1''"]
    latest_average_is_returned [of example_world "''i-2''" "example_datapoints ''i-2''"]
  by (simp add: example_world_def example_datapoints_def ex_cpu)




text \<open>
  C10. Whenever the handler returns, it returns status code 200 with the body
  \<open>Optimization complete\<close>, whatever was evaluated or stopped; and it does return when no
  external call raises.
\<close>

theorem handler_returns_ok:
  "(\<forall>r. snd (lambda_handler repr w cfg ev ctx) = Inr r \<longrightarrow>
      r = \<lparr>statusCode = 200, body = ''Optimization complete''\<rparr>)
   \<and> ((\<exists>now. clock w (TIMEZONE cfg) = Inr now)
       \<and> (\<exists>rs. describe_instances w instance_filters = Inr rs)
       \<and> (\<forall>i. \<exists>dps. get_metric_statistics w i = Inr dps)
       \<and> (\<forall>ids. stop_instances w ids = None)
       \<and> (\<forall>t it. put_item w t it = None)
       \<and> (\<forall>a s m. publish w a s m = None)
       \<longrightarrow> snd (lambda_handler repr w cfg ev ctx) =
             Inr \<lparr>statusCode = 200, body = ''Optimization complete''\<rparr>)"
proof (intro conjI allI impI)
  fix r
  assume "snd (lambda_handler repr w cfg ev ctx) = Inr r"
  then show "r = \<lparr>statusCode = 200, body = ''Optimization complete''\<rparr>"
    by (auto simp: lambda_handler_def bind_io_def return_io_def split: prod.splits sum.splits)
next
  assume h: "(\<exists>now. clock w (TIMEZONE cfg) = Inr now)
       \<and> (\<exists>rs. describe_instances w instance_filters = Inr rs)
       \<and> (\<forall>i. \<exists>dps. get_metric_statistics w i = Inr dps)
       \<and> (\<forall>ids. stop_instances w ids = None)
       \<and> (\<forall>t it. put_item w t it = None)
       \<and> (\<forall>a s m. publish w a s m = None)"
  then obtain now rs where c: "clock w (TIMEZONE cfg) = Inr now"
    and d: "describe_instances w instance_filters = Inr rs" by blast
  define cpu where "cpu i = projr (snd (get_cpu_utilization w i))" for i
  have g: "\<forall>i. snd (get_cpu_utilization w i) = Inr (cpu i)"
  proof
    fix i
    from h obtain dps where "get_metric_statistics w i = Inr dps" by blast
    then show "snd (get_cpu_utilization w i) = Inr (cpu i)"
      by (simp add: cpu_def get_cpu_utilization_Inr)
  qed
  from h have s: "\<forall>ids. stop_instances w ids = None" and p: "\<forall>t it. put_item w t it = None"
    and n: "\<forall>a s m. publish w a s m = None" by blast+
  show "snd (lambda_handler repr w cfg ev ctx) =
          Inr \<lparr>statusCode = 200, body = ''Optimization complete''\<rparr>"
    using lambda_handler_unfold [OF c d, of repr ev ctx]
      for_instances_ok(1) [OF g s p n, of repr cfg now "concat (map Instances rs)"]
    by simp
qed


theorem handler_returns_ok_witness:
  "snd (lambda_handler example_repr example_world example_config () ()) =
     Inr \<lparr>statusCode = 200, body = ''Optimization complete''\<rparr>"
proof -
  have "(\<exists>now. clock example_world (TIMEZONE example_config) = Inr now)
       \<and> (\<exists>rs. describe_instances example_world instance_filters = Inr rs)
       \<and> (\<forall>i. \<exists>dps. get_metric_statistics example_world i = Inr dps)
       \<and> (\<forall>ids. stop_instances example_world ids = None)
       \<and> (\<forall>t it. put_item example_world t it = None)
       \<and> (\<forall>a s m. publish example_world a s m = None)"
    by (simp add: example_world_def)
  with handler_returns_ok [of example_repr example_world example_config "()" "()"]
  show ?thesis by (rule conjunct2 [THEN mp])
qed

end
